theory Spec2Isabelle
  imports Main "HOL-Library.Sublist"
begin

section \<open>Data model of samples/instances.js\<close>

text \<open>
  The sample is a command-line program over the Cloud Bigtable admin client. Each handler
  is an async function that first builds the local handles it needs, outside every
  \<open>try\<close>, and then awaits a short chain of remote calls, every one inside its own
  try/catch. The client library and the service behind it are not part of the sample: they
  are a parameter of every handler below (a record of operations over a state \<open>'w\<close> of the
  remote service). A handler returns the sequence of things it did, in program order: each
  remote call with its outcome, each console line, and the exception it ended with when one
  was thrown outside a \<open>try\<close>.

  The values that reach a handler are read from the parsed command line, so they are
  JavaScript values of any kind the parser produces: \<open>undefined\<close> for an option that was
  not given, a string, a number (a word that reads as a number is turned into one; it is
  named here by its decimal text), a boolean (\<open>--no-instance\<close>) or an array (an option
  given more than once). Reading a key that an object literal does not have gives
  \<open>undefined\<close> too.
\<close>

datatype jsval = Undefined | Str string | Num string | Bool bool | Arr "jsval list"

text \<open>One cluster description, as in the object literals of the source
  (\<open>name\<close>, \<open>nodes\<close>, \<open>location\<close>, \<open>storage\<close>).\<close>

record cluster_config =
  name :: jsval
  nodes :: "nat option"
  location :: string
  storage :: string

text \<open>The options object of an instance creation (\<open>clusters\<close>, \<open>type\<close>, \<open>labels\<close>).\<close>

record instance_config =
  clusters :: "cluster_config list"
  type :: string
  labels :: "(string \<times> string) list option"

text \<open>What the client hands back: an instance (its \<open>name\<close> and the JSON text of its
  \<open>metadata\<close>) and a cluster (its \<open>id\<close>).\<close>

record instance_obj =
  inst_name :: string
  inst_metadata :: string

record cluster_obj =
  cl_id :: string

text \<open>An error that a remote call is rejected with, and an exception thrown by a
  synchronous call of the client.\<close>

datatype remote_error = RemoteError string

datatype js_exception = TypeError string

text \<open>The remote calls that the sample issues.\<close>

datatype call =
    Exists jsval
  | Create jsval instance_config
  | GetInstances
  | Get jsval
  | GetClusters jsval
  | CreateInstance jsval instance_config
  | DeleteInstance jsval
  | CreateCluster jsval jsval cluster_config
  | DeleteCluster jsval jsval

datatype outcome = Succeeded | Failed remote_error

datatype event =
    Remote call outcome
  | ConsoleLog string
  | ConsoleError string remote_error
  | Uncaught js_exception
  | UsageToStderr
  | HelpToStdout
  | VersionToStdout

text \<open>
  The client library, as far as the sample uses it.
  \<^item> \<open>instance_handle n\<close> is \<open>bigtable.instance(n)\<close> and \<open>cluster_handle n c\<close> is
    \<open>bigtable.instance(n).cluster(c)\<close>: synchronous, local, no call is issued. Either
    throws, or gives the handle, of which the sample reads only \<open>name\<close> (of an instance)
    and \<open>id\<close> (of a cluster).
  \<^item> Every other field is one asynchronous call: it takes the state of the service and
    returns an error or a value, and the next state.
\<close>

record 'w bigtable =
  instance_handle :: "jsval \<Rightarrow> js_exception + string"
  cluster_handle :: "jsval \<Rightarrow> jsval \<Rightarrow> js_exception + string"
  instance_exists :: "jsval \<Rightarrow> 'w \<Rightarrow> (remote_error + bool) \<times> 'w"
  instance_create :: "jsval \<Rightarrow> instance_config \<Rightarrow> 'w \<Rightarrow> (remote_error + instance_obj) \<times> 'w"
  getInstances :: "'w \<Rightarrow> (remote_error + instance_obj list) \<times> 'w"
  instance_get :: "jsval \<Rightarrow> 'w \<Rightarrow> (remote_error + instance_obj) \<times> 'w"
  instance_getClusters :: "jsval \<Rightarrow> 'w \<Rightarrow> (remote_error + cluster_obj list) \<times> 'w"
  createInstance :: "jsval \<Rightarrow> instance_config \<Rightarrow> 'w \<Rightarrow> (remote_error + instance_obj) \<times> 'w"
  instance_delete :: "jsval \<Rightarrow> 'w \<Rightarrow> (remote_error + unit) \<times> 'w"
  instance_createCluster :: "jsval \<Rightarrow> jsval \<Rightarrow> cluster_config \<Rightarrow> 'w \<Rightarrow> (remote_error + cluster_obj) \<times> 'w"
  cluster_delete :: "jsval \<Rightarrow> jsval \<Rightarrow> 'w \<Rightarrow> (remote_error + unit) \<times> 'w"

text \<open>\<open>prepend es r\<close>: the events \<open>es\<close> happened, then the rest of the handler ran.\<close>

definition prepend :: "event list \<Rightarrow> event list \<times> 'w \<Rightarrow> event list \<times> 'w" where
  "prepend es r = (es @ fst r, snd r)"

section \<open>The handlers\<close>

subsection \<open>runInstanceOperations\<close>

text \<open>The options of the production instance (source lines 43 to 54).\<close>

definition instanceOptions :: "jsval \<Rightarrow> instance_config" where
  "instanceOptions clusterName =
     \<lparr> clusters = [\<lparr> name = clusterName, nodes = Some 3,
                      location = ''us-central1-f'', storage = ''ssd'' \<rparr>],
       type = ''PRODUCTION'',
       labels = Some [(''prod-label'', ''prod-label'')] \<rparr>"

text \<open>The last step of \<open>run\<close> (region \<open>bigtable_get_clusters\<close>). The handle that lines 87
  and 100 build again, inside their \<open>try\<close>, is the one that line 23 has built already.\<close>

definition run_getClusters :: "'w bigtable \<Rightarrow> jsval \<Rightarrow> 'w \<Rightarrow> event list \<times> 'w" where
  "run_getClusters bt instanceName w =
     prepend [ConsoleLog [], ConsoleLog ''Listing Clusters...'']
       (case instance_getClusters bt instanceName w of
          (Inl err, w') \<Rightarrow>
            ([Remote (GetClusters instanceName) (Failed err),
              ConsoleError ''Error creating cluster:'' err], w')
        | (Inr cs, w') \<Rightarrow>
            (Remote (GetClusters instanceName) Succeeded
               # map (\<lambda>cluster. ConsoleLog (cl_id cluster)) cs, w'))"

text \<open>Region \<open>bigtable_get_instance\<close>, then the step after it.\<close>

definition run_getInstance :: "'w bigtable \<Rightarrow> jsval \<Rightarrow> 'w \<Rightarrow> event list \<times> 'w" where
  "run_getInstance bt instanceName w =
     prepend [ConsoleLog [], ConsoleLog ''Get Instance'']
       (case instance_get bt instanceName w of
          (Inl err, w') \<Rightarrow>
            ([Remote (Get instanceName) (Failed err),
              ConsoleError ''Error getting instance:'' err], w')
        | (Inr inst, w') \<Rightarrow>
            prepend [Remote (Get instanceName) Succeeded,
                     ConsoleLog (''Instance Name: '' @ inst_name inst),
                     ConsoleLog (''Instance Meta: '' @ inst_metadata inst)]
              (run_getClusters bt instanceName w'))"

text \<open>Region \<open>bigtable_list_instances\<close>, then the steps after it.\<close>

definition run_getInstances :: "'w bigtable \<Rightarrow> jsval \<Rightarrow> 'w \<Rightarrow> event list \<times> 'w" where
  "run_getInstances bt instanceName w =
     prepend [ConsoleLog [], ConsoleLog ''Listing Instances:'']
       (case getInstances bt w of
          (Inl err, w') \<Rightarrow>
            ([Remote GetInstances (Failed err),
              ConsoleError ''Error listing instances:'' err], w')
        | (Inr instances, w') \<Rightarrow>
            prepend (Remote GetInstances Succeeded
                       # map (\<lambda>inst. ConsoleLog (inst_name inst)) instances)
              (run_getInstance bt instanceName w'))"

text \<open>The whole handler: the handle (line 23, outside every \<open>try\<close>), the existence check,
  the creation when the instance is absent, then the three steps above.\<close>

definition runInstanceOperations ::
  "'w bigtable \<Rightarrow> jsval \<Rightarrow> jsval \<Rightarrow> 'w \<Rightarrow> event list \<times> 'w" where
  "runInstanceOperations bt instanceName clusterName w =
     (case instance_handle bt instanceName of
        Inl exn \<Rightarrow> ([Uncaught exn], w)
      | Inr instance_name \<Rightarrow>
     prepend [ConsoleLog ''Check Instance Exists'']
       (case instance_exists bt instanceName w of
          (Inl err, w1) \<Rightarrow>
            ([Remote (Exists instanceName) (Failed err),
              ConsoleError ''Error checking if Instance exists:'' err], w1)
        | (Inr instanceExists, w1) \<Rightarrow>
            prepend [Remote (Exists instanceName) Succeeded]
              (if \<not> instanceExists then
                 prepend [ConsoleLog ''Creating a PRODUCTION Instance'']
                   (case instance_create bt instanceName (instanceOptions clusterName) w1 of
                      (Inl err, w2) \<Rightarrow>
                        ([Remote (Create instanceName (instanceOptions clusterName)) (Failed err),
                          ConsoleError ''Error creating prod-instance:'' err], w2)
                    | (Inr prodInstance, w2) \<Rightarrow>
                        prepend
                          [Remote (Create instanceName (instanceOptions clusterName)) Succeeded,
                           ConsoleLog (''Created Instance: '' @ inst_name prodInstance)]
                          (run_getInstances bt instanceName w2))
               else
                 prepend [ConsoleLog (''Instance '' @ instance_name @ '' exists'')]
                   (run_getInstances bt instanceName w1))))"

subsection \<open>createDevInstance\<close>

text \<open>The object \<open>options\<close> of the source (lines 122 to 132): the cluster entry has no
  \<open>nodes\<close> key.\<close>

definition devOptions :: "jsval \<Rightarrow> instance_config" where
  "devOptions clusterName =
     \<lparr> clusters = [\<lparr> name = clusterName, nodes = None,
                      location = ''us-central1-f'', storage = ''hdd'' \<rparr>],
       type = ''DEVELOPMENT'',
       labels = Some [(''dev-label'', ''dev-label'')] \<rparr>"

text \<open>This handler builds no handle: both arguments go straight into the call.\<close>

definition createDevInstance ::
  "'w bigtable \<Rightarrow> jsval \<Rightarrow> jsval \<Rightarrow> 'w \<Rightarrow> event list \<times> 'w" where
  "createDevInstance bt instanceName clusterName w =
     prepend [ConsoleLog [], ConsoleLog ''Creating a DEVELOPMENT Instance'']
       (case createInstance bt instanceName (devOptions clusterName) w of
          (Inl err, w') \<Rightarrow>
            ([Remote (CreateInstance instanceName (devOptions clusterName)) (Failed err),
              ConsoleError ''Error creating dev-instance:'' err], w')
        | (Inr inst, w') \<Rightarrow>
            ([Remote (CreateInstance instanceName (devOptions clusterName)) Succeeded,
              ConsoleLog (''Created development instance: '' @ inst_name inst)], w'))"

subsection \<open>deleteInstance\<close>

definition deleteInstance :: "'w bigtable \<Rightarrow> jsval \<Rightarrow> 'w \<Rightarrow> event list \<times> 'w" where
  "deleteInstance bt instanceName w =
     (case instance_handle bt instanceName of
        Inl exn \<Rightarrow> ([Uncaught exn], w)
      | Inr instance_name \<Rightarrow>
     prepend [ConsoleLog [], ConsoleLog ''Deleting Instance'']
       (case instance_delete bt instanceName w of
          (Inl err, w') \<Rightarrow>
            ([Remote (DeleteInstance instanceName) (Failed err),
              ConsoleError ''Error deleting instance:'' err], w')
        | (Inr u, w') \<Rightarrow>
            ([Remote (DeleteInstance instanceName) Succeeded,
              ConsoleLog (''Instance deleted: '' @ instance_name)], w')))"

subsection \<open>addCluster\<close>

text \<open>The object \<open>clusterOptions\<close> of the source (lines 182 to 186); it has no
  \<open>name\<close> key.\<close>

definition clusterOptions :: cluster_config where
  "clusterOptions =
     \<lparr> name = Undefined, nodes = Some 3, location = ''us-central1-c'', storage = ''ssd'' \<rparr>"

definition addCluster ::
  "'w bigtable \<Rightarrow> jsval \<Rightarrow> jsval \<Rightarrow> 'w \<Rightarrow> event list \<times> 'w" where
  "addCluster bt instanceName clusterName w =
     (case instance_handle bt instanceName of
        Inl exn \<Rightarrow> ([Uncaught exn], w)
      | Inr instance_name \<Rightarrow>
     (case instance_exists bt instanceName w of
        (Inl err, w1) \<Rightarrow>
          ([Remote (Exists instanceName) (Failed err),
            ConsoleError ''Error checking if Instance exists:'' err], w1)
      | (Inr instanceExists, w1) \<Rightarrow>
          prepend [Remote (Exists instanceName) Succeeded]
            (if \<not> instanceExists then
               ([ConsoleLog ''Instance does not exists''], w1)
             else
               prepend [ConsoleLog [],
                        ConsoleLog (''Adding Cluster to Instance '' @ instance_name)]
                 (case instance_createCluster bt instanceName clusterName clusterOptions w1 of
                    (Inl err, w2) \<Rightarrow>
                      ([Remote (CreateCluster instanceName clusterName clusterOptions) (Failed err),
                        ConsoleError ''Error creating cluster:'' err], w2)
                  | (Inr cluster, w2) \<Rightarrow>
                      ([Remote (CreateCluster instanceName clusterName clusterOptions) Succeeded,
                        ConsoleLog (''Cluster created: '' @ cl_id cluster)], w2)))))"

subsection \<open>deleteCluster\<close>

text \<open>Two handles are built before the \<open>try\<close>: the instance (line 205) and the cluster
  (line 206).\<close>

definition deleteCluster ::
  "'w bigtable \<Rightarrow> jsval \<Rightarrow> jsval \<Rightarrow> 'w \<Rightarrow> event list \<times> 'w" where
  "deleteCluster bt instanceName clusterName w =
     (case instance_handle bt instanceName of
        Inl exn \<Rightarrow> ([Uncaught exn], w)
      | Inr instance_name \<Rightarrow>
     (case cluster_handle bt instanceName clusterName of
        Inl exn \<Rightarrow> ([Uncaught exn], w)
      | Inr cluster_id \<Rightarrow>
     prepend [ConsoleLog [], ConsoleLog ''Deleting Cluster'']
       (case cluster_delete bt instanceName clusterName w of
          (Inl err, w') \<Rightarrow>
            ([Remote (DeleteCluster instanceName clusterName) (Failed err),
              ConsoleError ''Error deleting cluster:'' err], w')
        | (Inr u, w') \<Rightarrow>
            ([Remote (DeleteCluster instanceName clusterName) Succeeded,
              ConsoleLog (''Cluster deleted: '' @ cluster_id)], w'))))"

section \<open>Reading a trace\<close>

text \<open>The remote calls of a trace, in the order they were issued.\<close>

fun remote_calls :: "event list \<Rightarrow> call list" where
  "remote_calls [] = []"
| "remote_calls (Remote c r # es) = c # remote_calls es"
| "remote_calls (e # es) = remote_calls es"

text \<open>A trace in which no remote call failed.\<close>

fun all_succeeded :: "event list \<Rightarrow> bool" where
  "all_succeeded [] = True"
| "all_succeeded (Remote c (Failed err) # es) = False"
| "all_succeeded (e # es) = all_succeeded es"

text \<open>
  \<open>stops_at_failure t\<close>: a failed remote call in \<open>t\<close> is followed by one line on standard
  error that carries the same error, and by nothing else.
\<close>

fun stops_at_failure :: "event list \<Rightarrow> bool" where
  "stops_at_failure [] = True"
| "stops_at_failure (Remote c (Failed err) # es) =
     (case es of [ConsoleError pfx err'] \<Rightarrow> err' = err | _ \<Rightarrow> False)"
| "stops_at_failure (e # es) = stops_at_failure es"

text \<open>The prefixes of the lines written to standard error with an error.\<close>

fun error_prefixes :: "event list \<Rightarrow> string list" where
  "error_prefixes [] = []"
| "error_prefixes (ConsoleError pfx err # es) = pfx # error_prefixes es"
| "error_prefixes (e # es) = error_prefixes es"

text \<open>A trace that ends with an exception nobody caught.\<close>

fun uncaught :: "event list \<Rightarrow> bool" where
  "uncaught [] = False"
| "uncaught (Uncaught exn # es) = True"
| "uncaught (e # es) = uncaught es"

subsection \<open>A trace against the client\<close>

text \<open>
  \<open>perform bt c w\<close> applies to the state \<open>w\<close> the operation of the client that the call
  \<open>c\<close> names, and gives its outcome and the next state. \<open>replay bt t w\<close> goes through a
  trace from the state \<open>w\<close>: at every remote call of the trace it applies the client's
  operation to the state reached so far and compares the outcome with the one written in
  the trace. It gives the final state, or \<open>None\<close> when an outcome differs. So
  \<open>replay bt t w = Some w'\<close> says that the remote calls of \<open>t\<close> are the operations the
  client was asked to perform, one application each, in that order, from \<open>w\<close> to \<open>w'\<close>.
\<close>

definition answered :: "(remote_error + 'a) \<times> 'w \<Rightarrow> outcome \<times> 'w" where
  "answered r = (case fst r of Inl err \<Rightarrow> Failed err | Inr v \<Rightarrow> Succeeded, snd r)"

definition perform :: "'w bigtable \<Rightarrow> call \<Rightarrow> 'w \<Rightarrow> outcome \<times> 'w" where
  "perform bt c w =
     (case c of
        Exists i \<Rightarrow> answered (instance_exists bt i w)
      | Create i opts \<Rightarrow> answered (instance_create bt i opts w)
      | GetInstances \<Rightarrow> answered (getInstances bt w)
      | Get i \<Rightarrow> answered (instance_get bt i w)
      | GetClusters i \<Rightarrow> answered (instance_getClusters bt i w)
      | CreateInstance i opts \<Rightarrow> answered (createInstance bt i opts w)
      | DeleteInstance i \<Rightarrow> answered (instance_delete bt i w)
      | CreateCluster i c opts \<Rightarrow> answered (instance_createCluster bt i c opts w)
      | DeleteCluster i c \<Rightarrow> answered (cluster_delete bt i c w))"

fun replay :: "'w bigtable \<Rightarrow> event list \<Rightarrow> 'w \<Rightarrow> 'w option" where
  "replay bt [] w = Some w"
| "replay bt (Remote c r # es) w =
     (if fst (perform bt c w) = r then replay bt es (snd (perform bt c w)) else None)"
| "replay bt (e # es) w = replay bt es w"

section \<open>The command line (source lines 221 to 269)\<close>

text \<open>
  The sample hands the command line to yargs. What reaches the sample's code is the parsed
  object \<open>argv\<close>; the handlers read \<open>argv.instance\<close> and \<open>argv.cluster\<close> from it. The record
  below is that object together with what the parser found on the way:
  \<^item> \<open>cmd\<close>: the first word that is not an option (\<open>argv._[0]\<close>), if there is one;
  \<^item> \<open>argv_instance\<close>, \<open>argv_cluster\<close>: the values of \<open>--instance\<close> and \<open>--cluster\<close>,
    \<open>undefined\<close> when the option was not given;
  \<^item> \<open>unknown_keys\<close>: the options given that the chain does not describe
    (\<open>.strict()\<close> refuses them);
  \<^item> \<open>nargs_error\<close>: \<open>--instance\<close> or \<open>--cluster\<close> was given without the one value that
    \<open>.nargs(_, 1)\<close> asks for;
  \<^item> \<open>argv_info\<close>: the first of \<open>--help\<close> (\<open>.help()\<close>) and \<open>--version\<close> (which yargs
    provides by default) on the command line, if any.

  The chain registers five commands, each with the builder \<open>{}\<close>: no command declares an
  option, and the chain has no \<open>demandOption\<close>. The only demand is \<open>.demand(1)\<close>, one
  command word. Command lines with further words after the command are outside this model.
\<close>

datatype info = Help | Version

record argv =
  cmd :: "string option"
  argv_instance :: jsval
  argv_cluster :: jsval
  unknown_keys :: "string list"
  nargs_error :: bool
  argv_info :: "info option"

record 'w process =
  events :: "event list"
  exitCode :: nat
  service :: 'w

text \<open>The five \<open>.command(name, description, {}, handler)\<close> registrations.\<close>

definition commands ::
  "(string \<times> ('w bigtable \<Rightarrow> argv \<Rightarrow> 'w \<Rightarrow> event list \<times> 'w)) list" where
  "commands =
     [(''run'', \<lambda>bt argv. runInstanceOperations bt (argv_instance argv) (argv_cluster argv)),
      (''dev-instance'', \<lambda>bt argv. createDevInstance bt (argv_instance argv) (argv_cluster argv)),
      (''del-instance'', \<lambda>bt argv. deleteInstance bt (argv_instance argv)),
      (''add-cluster'', \<lambda>bt argv. addCluster bt (argv_instance argv) (argv_cluster argv)),
      (''del-cluster'', \<lambda>bt argv. deleteCluster bt (argv_instance argv) (argv_cluster argv))]"

definition command_names :: "string list" where
  "command_names = [''run'', ''dev-instance'', ''del-instance'', ''add-cluster'', ''del-cluster'']"

text \<open>A refused command line: the usage text on standard error, exit code 1, no handler.\<close>

definition usage_failure :: "'w \<Rightarrow> 'w process" where
  "usage_failure w = \<lparr> events = [UsageToStderr], exitCode = 1, service = w \<rparr>"

text \<open>
  The end of the process after a handler. A handler that ended with an exception outside
  its \<open>try\<close> blocks makes the parser report a failure: the usage text goes to standard
  error and the exit code is 1. A handler that returned sets no exit code, whatever its
  remote calls answered, and the process ends with 0.
\<close>

definition finish :: "event list \<times> 'w \<Rightarrow> 'w process" where
  "finish r =
     (if uncaught (fst r)
      then \<lparr> events = fst r @ [UsageToStderr], exitCode = 1, service = snd r \<rparr>
      else \<lparr> events = fst r, exitCode = 0, service = snd r \<rparr>)"

text \<open>
  The run of the program on a parsed command line. \<open>--help\<close> prints the help and
  \<open>--version\<close> the version; both exit with 0 and run no handler. Otherwise the command
  line is refused when the parser reported a missing option value, when an unknown option
  was given (\<open>.strict()\<close>), when there is no command word (\<open>.demand(1)\<close>) or when the word
  is not a registered command (\<open>.strict()\<close>). Otherwise the command's handler runs with
  \<open>argv\<close> as it is.
\<close>

definition cli :: "'w bigtable \<Rightarrow> argv \<Rightarrow> 'w \<Rightarrow> 'w process" where
  "cli bt a w =
     (case argv_info a of
        Some Help \<Rightarrow> \<lparr> events = [HelpToStdout], exitCode = 0, service = w \<rparr>
      | Some Version \<Rightarrow> \<lparr> events = [VersionToStdout], exitCode = 0, service = w \<rparr>
      | None \<Rightarrow>
          if nargs_error a \<or> unknown_keys a \<noteq> [] then usage_failure w
          else case cmd a of
                 None \<Rightarrow> usage_failure w
               | Some c \<Rightarrow>
                   (case map_of commands c of
                      None \<Rightarrow> usage_failure w
                    | Some handler \<Rightarrow> finish (handler bt a w)))"

section \<open>A service to run the handlers against\<close>

text \<open>
  A small in-memory stand-in for the client and the remote service, used to run the
  handlers on concrete inputs. Its state is the list of the instances that exist; \<open>fails\<close>
  says which calls the service answers with an error. Like the client, it builds a handle
  from a string and throws a \<open>TypeError\<close> on \<open>undefined\<close>; it refuses every other value
  that is not a string as well.
\<close>

definition handle_of :: "jsval \<Rightarrow> js_exception + string" where
  "handle_of v =
     (case v of Str s \<Rightarrow> Inr s
      | _ \<Rightarrow> Inl (TypeError ''Cannot read property indexOf''))"

definition shown :: "jsval \<Rightarrow> string" where
  "shown v = (case v of Str s \<Rightarrow> s | _ \<Rightarrow> ''undefined'')"

definition unavailable :: remote_error where
  "unavailable = RemoteError ''UNAVAILABLE''"

definition not_found :: remote_error where
  "not_found = RemoteError ''NOT_FOUND''"

definition already_exists :: remote_error where
  "already_exists = RemoteError ''ALREADY_EXISTS''"

definition answer :: "bool \<Rightarrow> 'a \<Rightarrow> 'w \<Rightarrow> 'w \<Rightarrow> (remote_error + 'a) \<times> 'w" where
  "answer bad v w w' = (if bad then (Inl unavailable, w) else (Inr v, w'))"

definition service_stub :: "(call \<Rightarrow> bool) \<Rightarrow> (jsval list) bigtable" where
  "service_stub fails =
     \<lparr> instance_handle = handle_of,
       cluster_handle = (\<lambda>i c. handle_of c),
       instance_exists = (\<lambda>i w. answer (fails (Exists i)) (i \<in> set w) w w),
       instance_create = (\<lambda>i opts w.
          if i \<in> set w then (Inl already_exists, w)
          else answer (fails (Create i opts))
                 \<lparr> inst_name = shown i, inst_metadata = ''{}'' \<rparr> w (i # w)),
       getInstances = (\<lambda>w.
          answer (fails GetInstances)
            (map (\<lambda>i. \<lparr> inst_name = shown i, inst_metadata = ''{}'' \<rparr>) w) w w),
       instance_get = (\<lambda>i w.
          if i \<in> set w
          then answer (fails (Get i)) \<lparr> inst_name = shown i, inst_metadata = ''{}'' \<rparr> w w
          else (Inl not_found, w)),
       instance_getClusters = (\<lambda>i w.
          if i \<in> set w then answer (fails (GetClusters i)) [] w w
          else (Inl not_found, w)),
       createInstance = (\<lambda>i opts w.
          if i \<in> set w then (Inl already_exists, w)
          else answer (fails (CreateInstance i opts))
                 \<lparr> inst_name = shown i, inst_metadata = ''{}'' \<rparr> w (i # w)),
       instance_delete = (\<lambda>i w.
          if i \<in> set w then answer (fails (DeleteInstance i)) () w (removeAll i w)
          else (Inl not_found, w)),
       instance_createCluster = (\<lambda>i c opts w.
          if i \<in> set w then answer (fails (CreateCluster i c opts)) \<lparr> cl_id = shown c \<rparr> w w
          else (Inl not_found, w)),
       cluster_delete = (\<lambda>i c w.
          if i \<in> set w then answer (fails (DeleteCluster i c)) () w w
          else (Inl not_found, w)) \<rparr>"

definition reliable :: "call \<Rightarrow> bool" where
  "reliable c = False"

section \<open>Traces: basic facts\<close>

lemma fst_prepend [simp]: "fst (prepend es r) = es @ fst r"
  by (simp add: prepend_def)

lemma snd_prepend [simp]: "snd (prepend es r) = snd r"
  by (simp add: prepend_def)

lemma remote_calls_append [simp]:
  "remote_calls (xs @ ys) = remote_calls xs @ remote_calls ys"
  by (induction xs rule: remote_calls.induct) simp_all

lemma remote_calls_logs [simp]: "remote_calls (map (\<lambda>x. ConsoleLog (f x)) xs) = []"
  by (induction xs) simp_all

lemma all_succeeded_append [simp]:
  "all_succeeded (xs @ ys) = (all_succeeded xs \<and> all_succeeded ys)"
  by (induction xs rule: all_succeeded.induct) simp_all

lemma all_succeeded_logs [simp]: "all_succeeded (map (\<lambda>x. ConsoleLog (f x)) xs)"
  by (induction xs) simp_all

lemma stops_at_failure_append:
  "all_succeeded xs \<Longrightarrow> stops_at_failure (xs @ ys) = stops_at_failure ys"
  by (induction xs rule: all_succeeded.induct) simp_all

lemma stops_at_failure_logs [simp]:
  "stops_at_failure (map (\<lambda>x. ConsoleLog (f x)) xs @ ys) = stops_at_failure ys"
  by (simp add: stops_at_failure_append)

lemma all_succeeded_stops: "all_succeeded xs \<Longrightarrow> stops_at_failure xs"
  by (induction xs rule: all_succeeded.induct) simp_all

lemma stops_logs [simp]: "stops_at_failure (map (\<lambda>x. ConsoleLog (f x)) xs)"
  by (simp add: all_succeeded_stops)

lemma uncaught_append [simp]: "uncaught (xs @ ys) = (uncaught xs \<or> uncaught ys)"
  by (induction xs rule: uncaught.induct) simp_all

lemma uncaught_logs [simp]: "\<not> uncaught (map (\<lambda>x. ConsoleLog (f x)) xs)"
  by (induction xs) simp_all

lemma replay_logs [simp]:
  "replay bt (map (\<lambda>x. ConsoleLog (f x)) xs @ ys) w = replay bt ys w"
  by (induction xs) simp_all

lemma replay_logs_only [simp]: "replay bt (map (\<lambda>x. ConsoleLog (f x)) xs) w = Some w"
  by (induction xs) simp_all

lemma perform_simps [simp]:
  "perform bt (Exists i) w = answered (instance_exists bt i w)"
  "perform bt (Create i opts) w = answered (instance_create bt i opts w)"
  "perform bt GetInstances w = answered (getInstances bt w)"
  "perform bt (Get i) w = answered (instance_get bt i w)"
  "perform bt (GetClusters i) w = answered (instance_getClusters bt i w)"
  "perform bt (CreateInstance i opts) w = answered (createInstance bt i opts w)"
  "perform bt (DeleteInstance i) w = answered (instance_delete bt i w)"
  "perform bt (CreateCluster i c co) w = answered (instance_createCluster bt i c co w)"
  "perform bt (DeleteCluster i c) w = answered (cluster_delete bt i c w)"
  by (simp_all add: perform_def)

lemma answered_simps [simp]:
  "answered (Inl err, w) = (Failed err, w)"
  "answered (Inr v, w) = (Succeeded, w)"
  by (simp_all add: answered_def)

section \<open>The steps of \<open>run\<close> after the creation\<close>

lemma calls_getClusters:
  "remote_calls (fst (run_getClusters bt i w)) = [GetClusters i]"
  by (simp add: run_getClusters_def split: prod.splits sum.splits)

lemma prefix_getInstance:
  "prefix (remote_calls (fst (run_getInstance bt i w))) [Get i, GetClusters i]"
  by (simp add: run_getInstance_def calls_getClusters split: prod.splits sum.splits)

lemma full_getInstance:
  "all_succeeded (fst (run_getInstance bt i w)) \<Longrightarrow>
   remote_calls (fst (run_getInstance bt i w)) = [Get i, GetClusters i]"
  by (simp add: run_getInstance_def calls_getClusters split: prod.splits sum.splits)

lemma prefix_getInstances:
  "prefix (remote_calls (fst (run_getInstances bt i w))) [GetInstances, Get i, GetClusters i]"
  using prefix_getInstance [of bt i]
  by (simp add: run_getInstances_def split: prod.splits sum.splits)

lemma full_getInstances:
  "all_succeeded (fst (run_getInstances bt i w)) \<Longrightarrow>
   remote_calls (fst (run_getInstances bt i w)) = [GetInstances, Get i, GetClusters i]"
  using full_getInstance [of bt i]
  by (simp add: run_getInstances_def split: prod.splits sum.splits)


lemma replay_getClusters:
  "replay bt (fst (run_getClusters bt i w)) w = Some (snd (run_getClusters bt i w))"
  by (simp add: run_getClusters_def split: prod.splits sum.splits)

lemma replay_getInstance:
  "replay bt (fst (run_getInstance bt i w)) w = Some (snd (run_getInstance bt i w))"
  by (simp add: run_getInstance_def replay_getClusters split: prod.splits sum.splits)

lemma replay_getInstances:
  "replay bt (fst (run_getInstances bt i w)) w = Some (snd (run_getInstances bt i w))"
  by (simp add: run_getInstances_def replay_getInstance split: prod.splits sum.splits)

lemma returned_getClusters: "\<not> uncaught (fst (run_getClusters bt i w))"
  by (simp add: run_getClusters_def split: prod.splits sum.splits)

lemma returned_getInstance: "\<not> uncaught (fst (run_getInstance bt i w))"
  by (simp add: run_getInstance_def returned_getClusters split: prod.splits sum.splits)

lemma returned_getInstances: "\<not> uncaught (fst (run_getInstances bt i w))"
  by (simp add: run_getInstances_def returned_getInstance split: prod.splits sum.splits)

section \<open>The handlers against the client\<close>

lemma replay_run:
  "replay bt (fst (runInstanceOperations bt i c w)) w = Some (snd (runInstanceOperations bt i c w))"
  by (simp add: runInstanceOperations_def replay_getInstances split: prod.splits sum.splits)

lemma replay_dev:
  "replay bt (fst (createDevInstance bt i c w)) w = Some (snd (createDevInstance bt i c w))"
  by (simp add: createDevInstance_def split: prod.splits sum.splits)

lemma replay_delInstance:
  "replay bt (fst (deleteInstance bt i w)) w = Some (snd (deleteInstance bt i w))"
  by (simp add: deleteInstance_def split: prod.splits sum.splits)

lemma replay_addCluster:
  "replay bt (fst (addCluster bt i c w)) w = Some (snd (addCluster bt i c w))"
  by (simp add: addCluster_def split: prod.splits sum.splits)

lemma replay_delCluster:
  "replay bt (fst (deleteCluster bt i c w)) w = Some (snd (deleteCluster bt i c w))"
  by (simp add: deleteCluster_def split: prod.splits sum.splits)

text \<open>A handler ends with an exception exactly when a handle could not be built, and
  then it has done nothing else.\<close>

lemma thrown_handlers:
  "instance_handle bt i = Inl exn \<Longrightarrow> runInstanceOperations bt i c w = ([Uncaught exn], w)"
  "instance_handle bt i = Inl exn \<Longrightarrow> deleteInstance bt i w = ([Uncaught exn], w)"
  "instance_handle bt i = Inl exn \<Longrightarrow> addCluster bt i c w = ([Uncaught exn], w)"
  "instance_handle bt i = Inl exn \<Longrightarrow> deleteCluster bt i c w = ([Uncaught exn], w)"
  "instance_handle bt i = Inr h \<Longrightarrow> cluster_handle bt i c = Inl exn \<Longrightarrow>
     deleteCluster bt i c w = ([Uncaught exn], w)"
  by (simp_all add: runInstanceOperations_def deleteInstance_def addCluster_def
      deleteCluster_def)

lemma returned_handlers:
  "instance_handle bt i = Inr h \<Longrightarrow> \<not> uncaught (fst (runInstanceOperations bt i c w))"
  "\<not> uncaught (fst (createDevInstance bt i c w))"
  "instance_handle bt i = Inr h \<Longrightarrow> \<not> uncaught (fst (deleteInstance bt i w))"
  "instance_handle bt i = Inr h \<Longrightarrow> \<not> uncaught (fst (addCluster bt i c w))"
  "instance_handle bt i = Inr h \<Longrightarrow> cluster_handle bt i c = Inr k \<Longrightarrow>
     \<not> uncaught (fst (deleteCluster bt i c w))"
  by (simp_all add: runInstanceOperations_def createDevInstance_def deleteInstance_def
      addCluster_def deleteCluster_def returned_getInstances split: prod.splits sum.splits)

lemma uncaught_calm:
  "uncaught (fst (runInstanceOperations bt i c w)) \<Longrightarrow>
     all_succeeded (fst (runInstanceOperations bt i c w))"
  "uncaught (fst (createDevInstance bt i c w)) \<Longrightarrow>
     all_succeeded (fst (createDevInstance bt i c w))"
  "uncaught (fst (deleteInstance bt i w)) \<Longrightarrow> all_succeeded (fst (deleteInstance bt i w))"
  "uncaught (fst (addCluster bt i c w)) \<Longrightarrow> all_succeeded (fst (addCluster bt i c w))"
  "uncaught (fst (deleteCluster bt i c w)) \<Longrightarrow> all_succeeded (fst (deleteCluster bt i c w))"
proof -
  show "uncaught (fst (runInstanceOperations bt i c w)) \<Longrightarrow>
     all_succeeded (fst (runInstanceOperations bt i c w))"
    using thrown_handlers(1) [where bt = bt and i = i and c = c and w = w]
      returned_handlers(1) [where bt = bt and i = i and c = c and w = w]
    by (cases "instance_handle bt i") auto
  show "uncaught (fst (createDevInstance bt i c w)) \<Longrightarrow>
     all_succeeded (fst (createDevInstance bt i c w))"
    using returned_handlers(2) [where bt = bt and i = i and c = c and w = w] by simp
  show "uncaught (fst (deleteInstance bt i w)) \<Longrightarrow> all_succeeded (fst (deleteInstance bt i w))"
    using thrown_handlers(2) [where bt = bt and i = i and w = w]
      returned_handlers(3) [where bt = bt and i = i and w = w]
    by (cases "instance_handle bt i") auto
  show "uncaught (fst (addCluster bt i c w)) \<Longrightarrow> all_succeeded (fst (addCluster bt i c w))"
    using thrown_handlers(3) [where bt = bt and i = i and c = c and w = w]
      returned_handlers(4) [where bt = bt and i = i and c = c and w = w]
    by (cases "instance_handle bt i") auto
  show "uncaught (fst (deleteCluster bt i c w)) \<Longrightarrow> all_succeeded (fst (deleteCluster bt i c w))"
    using thrown_handlers(4,5) [where bt = bt and i = i and c = c and w = w]
      returned_handlers(5) [where bt = bt and i = i and c = c and w = w]
    by (cases "instance_handle bt i"; cases "cluster_handle bt i c") auto
qed

section \<open>A failed call ends the handler\<close>

lemma stops_getClusters: "stops_at_failure (fst (run_getClusters bt i w))"
  by (simp add: run_getClusters_def split: prod.splits sum.splits)

lemma stops_getInstance: "stops_at_failure (fst (run_getInstance bt i w))"
  using stops_getClusters [of bt i]
  by (simp add: run_getInstance_def split: prod.splits sum.splits)

lemma stops_getInstances: "stops_at_failure (fst (run_getInstances bt i w))"
  using stops_getInstance [of bt i]
  by (simp add: run_getInstances_def split: prod.splits sum.splits)

lemma stops_run: "stops_at_failure (fst (runInstanceOperations bt i c w))"
  using stops_getInstances [of bt i]
  by (simp add: runInstanceOperations_def split: prod.splits sum.splits)

lemma stops_dev: "stops_at_failure (fst (createDevInstance bt i c w))"
  by (simp add: createDevInstance_def split: prod.splits sum.splits)

lemma stops_delInstance: "stops_at_failure (fst (deleteInstance bt i w))"
  by (simp add: deleteInstance_def split: prod.splits sum.splits)

lemma stops_addCluster: "stops_at_failure (fst (addCluster bt i c w))"
  by (simp add: addCluster_def split: prod.splits sum.splits)

lemma stops_delCluster: "stops_at_failure (fst (deleteCluster bt i c w))"
  by (simp add: deleteCluster_def split: prod.splits sum.splits)

section \<open>The dispatcher\<close>

lemma stops_finish:
  "stops_at_failure (fst r) \<Longrightarrow> (uncaught (fst r) \<Longrightarrow> all_succeeded (fst r)) \<Longrightarrow>
   stops_at_failure (events (finish r))"
  by (simp add: finish_def stops_at_failure_append)

lemma exit_finish:
  "(uncaught (fst r) \<Longrightarrow> all_succeeded (fst r)) \<Longrightarrow>
   \<not> all_succeeded (events (finish r)) \<Longrightarrow> exitCode (finish r) = 0"
  by (auto simp add: finish_def split: if_splits)

lemma cli_info:
  "argv_info a = Some Help \<Longrightarrow>
     cli bt a w = \<lparr> events = [HelpToStdout], exitCode = 0, service = w \<rparr>"
  "argv_info a = Some Version \<Longrightarrow>
     cli bt a w = \<lparr> events = [VersionToStdout], exitCode = 0, service = w \<rparr>"
  by (simp_all add: cli_def)

lemma cli_refused:
  "argv_info a = None \<Longrightarrow>
   nargs_error a \<or> unknown_keys a \<noteq> [] \<or> cmd a \<notin> Some ` set command_names \<Longrightarrow>
   cli bt a w = usage_failure w"
  by (auto simp add: cli_def commands_def command_names_def split: option.splits)

lemma cli_dispatch:
  assumes "argv_info a = None" and "\<not> nargs_error a" and "unknown_keys a = []"
  shows "cmd a = Some ''run'' \<Longrightarrow>
           cli bt a w = finish (runInstanceOperations bt (argv_instance a) (argv_cluster a) w)"
    and "cmd a = Some ''dev-instance'' \<Longrightarrow>
           cli bt a w = finish (createDevInstance bt (argv_instance a) (argv_cluster a) w)"
    and "cmd a = Some ''del-instance'' \<Longrightarrow>
           cli bt a w = finish (deleteInstance bt (argv_instance a) w)"
    and "cmd a = Some ''add-cluster'' \<Longrightarrow>
           cli bt a w = finish (addCluster bt (argv_instance a) (argv_cluster a) w)"
    and "cmd a = Some ''del-cluster'' \<Longrightarrow>
           cli bt a w = finish (deleteCluster bt (argv_instance a) (argv_cluster a) w)"
  using assms by (simp_all add: cli_def commands_def)

lemma cmd_cases:
  "cmd a \<in> Some ` set command_names \<longleftrightarrow>
     cmd a = Some ''run'' \<or> cmd a = Some ''dev-instance'' \<or> cmd a = Some ''del-instance''
     \<or> cmd a = Some ''add-cluster'' \<or> cmd a = Some ''del-cluster''"
  by (auto simp add: command_names_def)

lemma cli_cases:
  obtains (info) "argv_info a \<noteq> None" "exitCode (cli bt a w) = 0"
      "all_succeeded (events (cli bt a w))" "stops_at_failure (events (cli bt a w))"
  | (refused) "argv_info a = None" "cli bt a w = usage_failure w"
  | (run) "cli bt a w = finish (runInstanceOperations bt (argv_instance a) (argv_cluster a) w)"
  | (dev) "cli bt a w = finish (createDevInstance bt (argv_instance a) (argv_cluster a) w)"
  | (delInstance) "cli bt a w = finish (deleteInstance bt (argv_instance a) w)"
  | (addCluster) "cli bt a w = finish (addCluster bt (argv_instance a) (argv_cluster a) w)"
  | (delCluster) "cli bt a w = finish (deleteCluster bt (argv_instance a) (argv_cluster a) w)"
proof (cases "argv_info a")
  case (Some x)
  then show ?thesis
    using cli_info [of a bt w] info by (cases x) simp_all
next
  case None
  show ?thesis
  proof (cases "\<not> nargs_error a \<and> unknown_keys a = [] \<and> cmd a \<in> Some ` set command_names")
    case True
    then show ?thesis
      using cli_dispatch [OF None, of bt w] run dev delInstance addCluster delCluster
      by (auto simp add: cmd_cases)
  next
    case False
    then have "cli bt a w = usage_failure w"
      using cli_refused [OF None, of bt w] by blast
    with None show ?thesis by (rule refused)
  qed
qed

lemma cli_stops: "stops_at_failure (events (cli bt a w))"
proof (cases rule: cli_cases [where a = a and bt = bt and w = w])
  case refused
  then show ?thesis by (simp add: usage_failure_def)
qed (simp_all add: stops_finish stops_run stops_dev stops_delInstance stops_addCluster
      stops_delCluster uncaught_calm)

lemma cli_failure_exit: "\<not> all_succeeded (events (cli bt a w)) \<Longrightarrow> exitCode (cli bt a w) = 0"
proof (cases rule: cli_cases [where a = a and bt = bt and w = w])
  case refused
  assume "\<not> all_succeeded (events (cli bt a w))"
  with refused show ?thesis by (simp add: usage_failure_def)
qed (auto simp add: uncaught_calm intro: exit_finish)

lemma calls_dev:
  "remote_calls (fst (createDevInstance bt i c w)) = [CreateInstance i (devOptions c)]"
  by (simp add: createDevInstance_def split: prod.splits sum.splits)

lemma state_dev:
  "snd (createDevInstance bt i c w) = snd (createInstance bt i (devOptions c) w)"
  by (simp add: createDevInstance_def split: prod.splits sum.splits)


text \<open>Running the handlers against the stand-in service.\<close>

lemmas stub_simps =
  service_stub_def reliable_def answer_def shown_def handle_of_def unavailable_def
  not_found_def already_exists_def
  runInstanceOperations_def run_getInstances_def run_getInstance_def run_getClusters_def
  createDevInstance_def deleteInstance_def addCluster_def deleteCluster_def
  instanceOptions_def devOptions_def clusterOptions_def
  cli_def commands_def command_names_def usage_failure_def finish_def prepend_def

section \<open>The claims\<close>

subsection \<open>dev-instance\<close>

text \<open>
  Claim C4. Every run of \<open>createDevInstance\<close> issues exactly one remote call, a
  \<open>createInstance\<close> for the instance value given; its options have type \<open>DEVELOPMENT\<close>
  and one cluster entry, with the cluster name given, storage \<open>hdd\<close> and no \<open>nodes\<close> key.
  The call is the client's \<open>createInstance\<close> applied once to the state the handler
  started in: the handler ends in the state that this application leaves, and its trace
  replays against the client. This holds for every client, every state of the service and
  every pair of arguments.
\<close>

theorem dev_instance_single_create:
  "\<exists>opts cl. remote_calls (fst (createDevInstance bt i c w)) = [CreateInstance i opts]
     \<and> type opts = ''DEVELOPMENT'' \<and> clusters opts = [cl] \<and> name cl = c
     \<and> storage cl = ''hdd'' \<and> nodes cl = None
     \<and> snd (createDevInstance bt i c w) = snd (createInstance bt i opts w)
     \<and> replay bt (fst (createDevInstance bt i c w)) w = Some (snd (createDevInstance bt i c w))"
  by (simp add: calls_dev state_dev replay_dev devOptions_def)

subsection \<open>del-instance and del-cluster\<close>

text \<open>
  Claim C6, as the spec states it: every invocation of \<open>del-instance\<close> issues exactly one
  delete call. For \<open>del-instance\<close> with no \<open>--instance\<close>, the handle of line 149 cannot be
  built, the handler ends there, and the number of remote calls is zero; the instance
  \<open>foo\<close> of the service is still there.
\<close>

theorem del_instance_unnamed_no_call:
  "length (remote_calls (events (cli (service_stub reliable)
      \<lparr> cmd = Some ''del-instance'', argv_instance = Undefined, argv_cluster = Undefined,
        unknown_keys = [], nargs_error = False, argv_info = None \<rparr> [Str ''foo'']))) \<noteq> 1
   \<and> remote_calls (events (cli (service_stub reliable)
      \<lparr> cmd = Some ''del-instance'', argv_instance = Undefined, argv_cluster = Undefined,
        unknown_keys = [], nargs_error = False, argv_info = None \<rparr> [Str ''foo''])) = []
   \<and> service (cli (service_stub reliable)
      \<lparr> cmd = Some ''del-instance'', argv_instance = Undefined, argv_cluster = Undefined,
        unknown_keys = [], nargs_error = False, argv_info = None \<rparr> [Str ''foo''])
       = [Str ''foo'']"
  by (simp add: stub_simps)

text \<open>
  Claim C6, amended. When the client builds a handle from the instance value,
  \<open>deleteInstance\<close> issues exactly one remote call, the deletion of that instance; when it
  also builds the cluster handle, \<open>deleteCluster\<close> issues exactly one, the deletion of that
  cluster of that instance. Neither issues an existence check, and neither depends on the
  state of the service. The call is the client's delete operation applied once: the
  handler ends in the state that this application leaves.
\<close>

theorem delete_single_call:
  "(instance_handle bt i = Inr h \<longrightarrow>
      remote_calls (fst (deleteInstance bt i w)) = [DeleteInstance i]
      \<and> snd (deleteInstance bt i w) = snd (instance_delete bt i w)
      \<and> replay bt (fst (deleteInstance bt i w)) w = Some (snd (deleteInstance bt i w)))
   \<and> (instance_handle bt i = Inr h \<and> cluster_handle bt i c = Inr k \<longrightarrow>
      remote_calls (fst (deleteCluster bt i c w)) = [DeleteCluster i c]
      \<and> snd (deleteCluster bt i c w) = snd (cluster_delete bt i c w)
      \<and> replay bt (fst (deleteCluster bt i c w)) w = Some (snd (deleteCluster bt i c w)))"
  by (simp add: deleteInstance_def deleteCluster_def split: prod.splits sum.splits)

theorem delete_single_call_witness:
  "instance_handle (service_stub reliable) (Str ''foo'') = Inr ''foo''
   \<and> cluster_handle (service_stub reliable) (Str ''foo'') (Str ''bar'') = Inr ''bar''
   \<and> remote_calls (fst (deleteInstance (service_stub reliable) (Str ''foo'') [Str ''foo'']))
       = [DeleteInstance (Str ''foo'')]
   \<and> snd (deleteInstance (service_stub reliable) (Str ''foo'') [Str ''foo'']) = []
   \<and> remote_calls (fst (deleteCluster (service_stub reliable) (Str ''foo'') (Str ''bar'') []))
       = [DeleteCluster (Str ''foo'') (Str ''bar'')]"
proof -
  have built: "instance_handle (service_stub reliable) (Str ''foo'') = Inr ''foo''"
      "cluster_handle (service_stub reliable) (Str ''foo'') (Str ''bar'') = Inr ''bar''"
    by (simp_all add: stub_simps)
  have gone: "snd (instance_delete (service_stub reliable) (Str ''foo'') [Str ''foo'']) = []"
    by (simp add: stub_simps)
  from delete_single_call
         [of "service_stub reliable" "Str ''foo''" "''foo''" "[Str ''foo'']" "Str ''bar''" "''bar''"]
       built gone
  have one: "remote_calls (fst (deleteInstance (service_stub reliable) (Str ''foo'') [Str ''foo'']))
       = [DeleteInstance (Str ''foo'')]
     \<and> snd (deleteInstance (service_stub reliable) (Str ''foo'') [Str ''foo'']) = []"
    by simp
  from delete_single_call
         [of "service_stub reliable" "Str ''foo''" "''foo''" "[]" "Str ''bar''" "''bar''"] built
  have "remote_calls (fst (deleteCluster (service_stub reliable) (Str ''foo'') (Str ''bar'') []))
       = [DeleteCluster (Str ''foo'') (Str ''bar'')]"
    by simp
  with one built show ?thesis by blast
qed

subsection \<open>run\<close>

text \<open>
  Claim C2, as the spec states it: on a fresh environment the create call of \<open>run\<close> carries
  the options \<open>{clusters: [{name, nodes: 3, location: "us-central1-f", storage: "ssd"}],
  type: "PRODUCTION"}\<close> and nothing else. The source adds a \<open>labels\<close> key, so the call
  with exactly the listed options is not among the calls of
  \<open>run --instance foo --cluster bar\<close> on the empty service.
\<close>

theorem run_create_options_not_as_listed:
  "Create (Str ''foo'')
      \<lparr> clusters = [\<lparr> name = Str ''bar'', nodes = Some 3, location = ''us-central1-f'',
                       storage = ''ssd'' \<rparr>],
        type = ''PRODUCTION'', labels = None \<rparr>
    \<notin> set (remote_calls (fst (runInstanceOperations (service_stub reliable)
              (Str ''foo'') (Str ''bar'') [])))"
  by (simp add: stub_simps)

text \<open>
  Claim C2, amended. Let the client build the handle of the instance and let the existence
  check answer false. Then the first two remote calls of \<open>run\<close> are the existence check
  and the create call, with the options
  \<open>{clusters: [{name, nodes: 3, location: "us-central1-f", storage: "ssd"}],
  type: "PRODUCTION", labels: {"prod-label": "prod-label"}}\<close>. The calls after them are an
  initial part of: list instances, get instance, list clusters; when no call fails they are
  these three, each once and in that order. Every call of the trace is the client's
  operation applied to the state that the call before it left, so each is completed before
  the next is issued, and the handler ends in the state that the last one leaves.
\<close>

theorem run_fresh_call_sequence:
  assumes "instance_handle bt i = Inr h"
    and "fst (instance_exists bt i w) = Inr False"
  shows "(\<exists>rest.
            remote_calls (fst (runInstanceOperations bt i c w)) =
              Exists i
              # Create i \<lparr> clusters = [\<lparr> name = c, nodes = Some 3,
                                         location = ''us-central1-f'', storage = ''ssd'' \<rparr>],
                           type = ''PRODUCTION'',
                           labels = Some [(''prod-label'', ''prod-label'')] \<rparr>
              # rest
            \<and> prefix rest [GetInstances, Get i, GetClusters i]
            \<and> (all_succeeded (fst (runInstanceOperations bt i c w)) \<longrightarrow>
                 rest = [GetInstances, Get i, GetClusters i]))
         \<and> replay bt (fst (runInstanceOperations bt i c w)) w
             = Some (snd (runInstanceOperations bt i c w))"
proof -
  from assms(2) obtain w1 where ex: "instance_exists bt i w = (Inr False, w1)"
    by (cases "instance_exists bt i w") simp
  have "\<exists>rest.
            remote_calls (fst (runInstanceOperations bt i c w)) =
              Exists i
              # Create i \<lparr> clusters = [\<lparr> name = c, nodes = Some 3,
                                         location = ''us-central1-f'', storage = ''ssd'' \<rparr>],
                           type = ''PRODUCTION'',
                           labels = Some [(''prod-label'', ''prod-label'')] \<rparr>
              # rest
            \<and> prefix rest [GetInstances, Get i, GetClusters i]
            \<and> (all_succeeded (fst (runInstanceOperations bt i c w)) \<longrightarrow>
                 rest = [GetInstances, Get i, GetClusters i])"
  proof (cases "instance_create bt i (instanceOptions c) w1")
    case (Pair r w2)
    show ?thesis
    proof (cases r)
      case (Inl err)
      with Pair ex assms(1) show ?thesis
        by (simp add: runInstanceOperations_def instanceOptions_def)
    next
      case (Inr prodInstance)
      with Pair ex assms(1) prefix_getInstances [of bt i w2] full_getInstances [of bt i w2]
      show ?thesis
        by (simp add: runInstanceOperations_def instanceOptions_def)
    qed
  qed
  then show ?thesis
    by (simp add: replay_run)
qed

theorem run_fresh_call_sequence_witness:
  "instance_handle (service_stub reliable) (Str ''foo'') = Inr ''foo''
   \<and> fst (instance_exists (service_stub reliable) (Str ''foo'') []) = Inr False
   \<and> all_succeeded (fst (runInstanceOperations (service_stub reliable)
        (Str ''foo'') (Str ''bar'') []))
   \<and> remote_calls (fst (runInstanceOperations (service_stub reliable)
        (Str ''foo'') (Str ''bar'') [])) =
      [Exists (Str ''foo''),
       Create (Str ''foo'')
         \<lparr> clusters = [\<lparr> name = Str ''bar'', nodes = Some 3, location = ''us-central1-f'',
                          storage = ''ssd'' \<rparr>],
           type = ''PRODUCTION'', labels = Some [(''prod-label'', ''prod-label'')] \<rparr>,
       GetInstances, Get (Str ''foo''), GetClusters (Str ''foo'')]
   \<and> replay (service_stub reliable)
        (fst (runInstanceOperations (service_stub reliable) (Str ''foo'') (Str ''bar'') [])) []
       = Some [Str ''foo'']"
proof -
  have built: "instance_handle (service_stub reliable) (Str ''foo'') = Inr ''foo''"
    by (simp add: stub_simps)
  have absent: "fst (instance_exists (service_stub reliable) (Str ''foo'') []) = Inr False"
    by (simp add: stub_simps)
  have ok: "all_succeeded (fst (runInstanceOperations (service_stub reliable)
        (Str ''foo'') (Str ''bar'') []))"
    by (simp add: stub_simps)
  have final: "snd (runInstanceOperations (service_stub reliable)
        (Str ''foo'') (Str ''bar'') []) = [Str ''foo'']"
    by (simp add: stub_simps)
  from run_fresh_call_sequence [OF built absent, of "Str ''bar''"] ok built absent final
  show ?thesis by auto
qed





subsection \<open>add-cluster\<close>

text \<open>
  Claim C5. Let the client build the handle of the instance. When the existence check of
  \<open>addCluster\<close> answers false, the check is the only remote call (no cluster is created),
  the handler ends in the state the check left, and the line \<open>Instance does not exists\<close>,
  which contains the words "does not exist", is logged. When it answers true, there is
  exactly one further call, a \<open>createCluster\<close> under that instance with the cluster name
  given, 3 nodes, storage \<open>ssd\<close> and the location \<open>us-central1-c\<close>, which is not the
  location of any cluster entry in the options of the two instance creations; the handler
  ends in the state that the client's \<open>createCluster\<close>, applied once after the check,
  leaves. In both cases the trace replays against the client.
\<close>

theorem add_cluster_calls:
  assumes "instance_handle bt i = Inr h"
  shows "(fst (instance_exists bt i w) = Inr False \<longrightarrow>
            remote_calls (fst (addCluster bt i c w)) = [Exists i]
            \<and> snd (addCluster bt i c w) = snd (instance_exists bt i w)
            \<and> ConsoleLog (''Instance '' @ ''does not exist'' @ ''s'')
                \<in> set (fst (addCluster bt i c w)))
       \<and> (fst (instance_exists bt i w) = Inr True \<longrightarrow>
            (\<exists>opts. remote_calls (fst (addCluster bt i c w)) = [Exists i, CreateCluster i c opts]
               \<and> nodes opts = Some 3 \<and> storage opts = ''ssd''
               \<and> location opts = ''us-central1-c''
               \<and> (\<forall>c'. \<forall>cl \<in> set (clusters (instanceOptions c')) \<union> set (clusters (devOptions c')).
                     location cl \<noteq> location opts)
               \<and> snd (addCluster bt i c w)
                   = snd (instance_createCluster bt i c opts (snd (instance_exists bt i w)))))
       \<and> replay bt (fst (addCluster bt i c w)) w = Some (snd (addCluster bt i c w))"
proof (cases "instance_exists bt i w")
  case (Pair r w1)
  with assms show ?thesis
    by (cases r)
      (simp_all add: addCluster_def clusterOptions_def instanceOptions_def devOptions_def
        split: prod.splits sum.splits)
qed

theorem add_cluster_calls_witness:
  "instance_handle (service_stub reliable) (Str ''foo'') = Inr ''foo''
   \<and> fst (instance_exists (service_stub reliable) (Str ''foo'') []) = Inr False
   \<and> remote_calls (fst (addCluster (service_stub reliable) (Str ''foo'') (Str ''bar'') []))
       = [Exists (Str ''foo'')]
   \<and> fst (instance_exists (service_stub reliable) (Str ''foo'') [Str ''foo'']) = Inr True
   \<and> (\<exists>opts. remote_calls (fst (addCluster (service_stub reliable)
                  (Str ''foo'') (Str ''bar'') [Str ''foo'']))
             = [Exists (Str ''foo''), CreateCluster (Str ''foo'') (Str ''bar'') opts]
         \<and> nodes opts = Some 3 \<and> storage opts = ''ssd'')"
proof -
  have built: "instance_handle (service_stub reliable) (Str ''foo'') = Inr ''foo''"
    by (simp add: stub_simps)
  have absent: "fst (instance_exists (service_stub reliable) (Str ''foo'') []) = Inr False"
    and present:
      "fst (instance_exists (service_stub reliable) (Str ''foo'') [Str ''foo'']) = Inr True"
    by (simp_all add: stub_simps)
  from add_cluster_calls [OF built, of "[]" "Str ''bar''"] absent
  have "remote_calls (fst (addCluster (service_stub reliable) (Str ''foo'') (Str ''bar'') []))
       = [Exists (Str ''foo'')]"
    by blast
  moreover
  from add_cluster_calls [OF built, of "[Str ''foo'']" "Str ''bar''"] present
  have "\<exists>opts. remote_calls (fst (addCluster (service_stub reliable)
                  (Str ''foo'') (Str ''bar'') [Str ''foo'']))
             = [Exists (Str ''foo''), CreateCluster (Str ''foo'') (Str ''bar'') opts]
         \<and> nodes opts = Some 3 \<and> storage opts = ''ssd''"
    by blast
  ultimately show ?thesis
    using built absent present by blast
qed

subsection \<open>Failures of remote calls\<close>

text \<open>
  Claim C7. In the trace of each of the five handlers, a remote call that fails is followed
  by exactly one line on standard error, carrying that error, and by nothing more: no later
  remote call of the handler is issued. The same holds for the trace of the whole program
  on any command line, and a run in which a remote call failed ends with exit code 0.
\<close>

theorem failure_stops_chain_exit_zero:
  "stops_at_failure (fst (runInstanceOperations bt i c w))
   \<and> stops_at_failure (fst (createDevInstance bt i c w))
   \<and> stops_at_failure (fst (deleteInstance bt i w))
   \<and> stops_at_failure (fst (addCluster bt i c w))
   \<and> stops_at_failure (fst (deleteCluster bt i c w))
   \<and> stops_at_failure (events (cli bt a w))
   \<and> (\<not> all_succeeded (events (cli bt a w)) \<longrightarrow> exitCode (cli bt a w) = 0)"
  using cli_failure_exit [of bt a w]
  by (simp add: stops_run stops_dev stops_delInstance stops_addCluster stops_delCluster cli_stops)

theorem failure_stops_chain_exit_zero_witness:
  "\<not> all_succeeded (events (cli (service_stub (\<lambda>c. c = GetInstances))
        \<lparr> cmd = Some ''run'', argv_instance = Str ''foo'', argv_cluster = Str ''bar'',
          unknown_keys = [], nargs_error = False, argv_info = None \<rparr> [Str ''foo'']))
   \<and> exitCode (cli (service_stub (\<lambda>c. c = GetInstances))
        \<lparr> cmd = Some ''run'', argv_instance = Str ''foo'', argv_cluster = Str ''bar'',
          unknown_keys = [], nargs_error = False, argv_info = None \<rparr> [Str ''foo'']) = 0
   \<and> remote_calls (events (cli (service_stub (\<lambda>c. c = GetInstances))
        \<lparr> cmd = Some ''run'', argv_instance = Str ''foo'', argv_cluster = Str ''bar'',
          unknown_keys = [], nargs_error = False, argv_info = None \<rparr> [Str ''foo'']))
       = [Exists (Str ''foo''), GetInstances]"
proof -
  have failed: "\<not> all_succeeded (events (cli (service_stub (\<lambda>c. c = GetInstances))
        \<lparr> cmd = Some ''run'', argv_instance = Str ''foo'', argv_cluster = Str ''bar'',
          unknown_keys = [], nargs_error = False, argv_info = None \<rparr> [Str ''foo'']))"
    by (simp add: stub_simps)
  have calls: "remote_calls (events (cli (service_stub (\<lambda>c. c = GetInstances))
        \<lparr> cmd = Some ''run'', argv_instance = Str ''foo'', argv_cluster = Str ''bar'',
          unknown_keys = [], nargs_error = False, argv_info = None \<rparr> [Str ''foo'']))
       = [Exists (Str ''foo''), GetInstances]"
    by (simp add: stub_simps)
  from failure_stops_chain_exit_zero
         [of "service_stub (\<lambda>c. c = GetInstances)" _ _ "[Str ''foo'']"
             "\<lparr> cmd = Some ''run'', argv_instance = Str ''foo'', argv_cluster = Str ''bar'',
                unknown_keys = [], nargs_error = False, argv_info = None \<rparr>"]
       failed calls
  show ?thesis by blast
qed

text \<open>
  Claim C8, at the step it names. \<open>run --instance foo --cluster bar\<close> against a service
  where \<open>foo\<close> exists and only the listing of its clusters fails: the calls are the
  existence check, the two reads and the listing of the clusters, and the one line on
  standard error has the prefix \<open>Error creating cluster:\<close>. That is the prefix that
  \<open>add-cluster\<close> writes when its \<open>createCluster\<close> call fails.
\<close>

theorem list_clusters_failure_prefix:
  "remote_calls (fst (runInstanceOperations
      (service_stub (\<lambda>c. c = GetClusters (Str ''foo'')))
      (Str ''foo'') (Str ''bar'') [Str ''foo'']))
     = [Exists (Str ''foo''), GetInstances, Get (Str ''foo''), GetClusters (Str ''foo'')]
   \<and> error_prefixes (fst (runInstanceOperations
      (service_stub (\<lambda>c. c = GetClusters (Str ''foo'')))
      (Str ''foo'') (Str ''bar'') [Str ''foo''])) = [''Error creating cluster:'']
   \<and> error_prefixes (fst (addCluster
      (service_stub (\<lambda>c. c = CreateCluster (Str ''foo'') (Str ''bar'') clusterOptions))
      (Str ''foo'') (Str ''bar'') [Str ''foo''])) = [''Error creating cluster:'']"
  by (simp add: stub_simps)

subsection \<open>Missing named arguments\<close>







end
